theory Spec2Isabelle
  imports Main
begin

section \<open>The session gate of the vehicle catalogue server (\<open>src/server.js\<close>)\<close>

text \<open>
  The server is an Express application: every route handler receives a request, may
  read or write the document store, and answers through calls on the response object.
  A handler is embedded as a function from the store and the request to the new store
  and the list of the effects it performs, in the order the source performs them.
  Exceptions (a rejected promise inside a \<open>try\<close> block) are values of a sum type,
  and the \<open>catch\<close> block is the branch that consumes them.

  The packages the source calls (\<open>jsonwebtoken\<close>, \<open>bcryptjs\<close>, \<open>mongodb\<close>) are not part
  of the repository. The hash functions of \<open>bcryptjs\<close> and the keyed signature are
  parameters (the record \<open>libs\<close>); the credential codec is modelled from the
  specification; the store is a pair of lists. The route \<open>/registerVehicle\<close> (file
  upload) is not modelled.
\<close>

subsection \<open>Data model\<close>

text \<open>
  The object \<open>newUser\<close> that signup builds, and a document of the collection \<open>users\<close>:
  the same fields and \<open>u_id\<close>, the \<open>_id\<close> the store assigns.
\<close>

record new_user =
  u_name :: string
  u_mobile :: string
  u_email :: string
  u_password :: string

record user = new_user +
  u_id :: nat

text \<open>A document of the collection \<open>vehicles\<close> (the fields \<open>/registerVehicle\<close> writes).\<close>

record vehicle =
  v_name :: string
  v_vehicleType :: string
  v_vehicleNumber :: string
  v_vehicleImage :: "string option"
  v_ownerId :: nat

text \<open>The payload \<open>{ id, email }\<close> that login and signup sign, and that ends up in \<open>req.user\<close>.\<close>

record identity =
  ident_id :: nat
  ident_email :: string

text \<open>The signed fields of a credential: subject id, subject email, issued-at, expires-at.\<close>

type_synonym claims = "nat \<times> string \<times> nat \<times> nat"

record 'sig credential =
  subject_id :: nat
  subject_email :: string
  issued_at :: nat
  expires_at :: nat
  signature :: 'sig

text \<open>
  The value of the cookie \<open>token\<close> is a string. It is seen through the decoder of the
  codec: either the string decodes to the fields of a credential (\<open>Jwt\<close>), or it does
  not and is kept as it is (\<open>Raw\<close>, which includes the empty string).
\<close>

datatype 'sig artifact = Raw string | Jwt "'sig credential"

text \<open>The functions of the packages that are parameters of the model.\<close>

record 'sig libs =
  mac :: "string \<Rightarrow> claims \<Rightarrow> 'sig"
  bcrypt_hash :: "string \<Rightarrow> nat \<Rightarrow> string"
  bcrypt_compare :: "string \<Rightarrow> string \<Rightarrow> bool"
  filter_matches :: "string \<Rightarrow> vehicle \<Rightarrow> bool"

text \<open>\<open>process.env\<close>: a variable that is not set reads as \<open>undefined\<close> (\<open>None\<close>).\<close>

record env =
  JWT_SECRET :: "string option"
  PORT :: "string option"

subsection \<open>Credential codec\<close>

datatype jwt_error = Invalid | SecretMissing

definition claims_of :: "'sig credential \<Rightarrow> claims" where
  "claims_of c = (subject_id c, subject_email c, issued_at c, expires_at c)"

definition identity_of :: "'sig credential \<Rightarrow> identity" where
  "identity_of c = \<lparr>ident_id = subject_id c, ident_email = subject_email c\<rparr>"

text \<open>
  Modelled from the spec: \<open>jwt.sign\<close> of the package \<open>jsonwebtoken\<close> (not in the
  source), as the contract of \<open>issue\<close>: the artifact encodes subject id, subject email,
  \<open>issued_at = now\<close> and \<open>expires_at = now + ttl\<close>, signed with the symmetric secret.
\<close>

definition issue :: "(string \<Rightarrow> claims \<Rightarrow> 'sig) \<Rightarrow> string \<Rightarrow> nat \<Rightarrow> nat \<Rightarrow> string \<Rightarrow> nat \<Rightarrow> 'sig artifact" where
  "issue sign_fn secret now sid semail ttl =
     Jwt \<lparr>subject_id = sid, subject_email = semail, issued_at = now, expires_at = now + ttl,
          signature = sign_fn secret (sid, semail, now, now + ttl)\<rparr>"

text \<open>
  Modelled from the spec: \<open>jwt.verify\<close> of the package \<open>jsonwebtoken\<close> (not in the
  source), as the contract of \<open>verify\<close>: it recomputes the signature over the encoded
  payload and fails as \<open>Invalid\<close> if the signature does not match, the payload is
  malformed, or \<open>now > expires_at\<close>; otherwise it returns the identity.
\<close>

definition verify :: "(string \<Rightarrow> claims \<Rightarrow> 'sig) \<Rightarrow> string \<Rightarrow> nat \<Rightarrow> 'sig artifact \<Rightarrow> jwt_error + identity" where
  "verify sign_fn secret now a =
     (case a of
        Raw s \<Rightarrow> Inl Invalid
      | Jwt c \<Rightarrow>
          if signature c \<noteq> sign_fn secret (claims_of c) then Inl Invalid
          else if now > expires_at c then Inl Invalid
          else Inr (identity_of c))"

text \<open>\<open>{ expiresIn: '1h' }\<close>, in seconds.\<close>

definition expiresIn_1h :: nat where
  "expiresIn_1h = 3600"

text \<open>
  Modelled from the spec: the two calls \<open>jwt.sign(payload, process.env.JWT_SECRET,
  { expiresIn })\<close> and \<open>jwt.verify(token, process.env.JWT_SECRET, callback)\<close> as the
  source makes them, the secret being read from the environment at the call. With a
  secret they are \<open>issue\<close> and \<open>verify\<close>. The codec of the spec always has its secret; for
  a secret that is \<open>undefined\<close> or empty the model follows the package, which has no key
  then: \<open>jwt.sign\<close> raises and \<open>jwt.verify\<close> hands an error to the callback.
\<close>

definition jwt_sign :: "'sig libs \<Rightarrow> nat \<Rightarrow> identity \<Rightarrow> string option \<Rightarrow> nat \<Rightarrow> jwt_error + 'sig artifact" where
  "jwt_sign L now payload secret ttl =
     (case secret of
        None \<Rightarrow> Inl SecretMissing
      | Some k \<Rightarrow>
          if k = [] then Inl SecretMissing
          else Inr (issue (mac L) k now (ident_id payload) (ident_email payload) ttl))"

definition jwt_verify :: "'sig libs \<Rightarrow> nat \<Rightarrow> 'sig artifact \<Rightarrow> string option \<Rightarrow> jwt_error + identity" where
  "jwt_verify L now token secret =
     (case secret of
        None \<Rightarrow> Inl Invalid
      | Some k \<Rightarrow> if k = [] then Inl Invalid else verify (mac L) k now token)"

subsection \<open>Requests and effects\<close>

text \<open>
  The parts of an Express request the handlers read: the cookie \<open>token\<close>
  (\<open>undefined\<close> when the client sent none), the form fields of the body, the route
  parameter \<open>:type\<close>, and \<open>req.user\<close>, which only the gate writes. The field
  \<open>password\<close> is \<open>None\<close> when the body has no such field (\<open>undefined\<close>) or has one that
  is not a string: \<open>bcryptjs\<close> treats every argument that is not a string alike.
\<close>

record 'sig request =
  cookies_token :: "'sig artifact option"
  body_name :: string
  body_mobile :: string
  body_email :: string
  body_password :: "string option"
  params_type :: string
  req_user :: "identity option"

text \<open>
  A JavaScript value, as far as the lookup in \<open>vehicleTypeMap\<close> can produce one.
\<close>

datatype js_value = JUndefined | JString string | JFunction string | JObject string

text \<open>
  What a handler does, in order: calls on the response object, on the console, on the
  store, and the call of \<open>next()\<close>.
\<close>

datatype 'sig effect =
    Redirect string
  | Cookie string "'sig artifact" bool
  | ClearCookie string
  | Status nat
  | Send string
  | SendFile string
  | Render string "vehicle list"
  | Next
  | ConsoleLog string
  | ConsoleError string
  | FindOne_users string
  | InsertOne_users new_user
  | Find_vehicles js_value

subsection \<open>Authentication middleware\<close>

text \<open>\<open>!token\<close> on a string: only the empty string is falsy.\<close>

definition falsy_token :: "'sig artifact \<Rightarrow> bool" where
  "falsy_token t = (case t of Raw s \<Rightarrow> s = [] | Jwt c \<Rightarrow> False)"

definition authenticateToken ::
  "'sig libs \<Rightarrow> env \<Rightarrow> nat \<Rightarrow> 'sig request \<Rightarrow> 'sig request \<times> 'sig effect list" where
  "authenticateToken L e now req =
     (case cookies_token req of
        None \<Rightarrow> (req, [Redirect ''/login.html''])
      | Some token \<Rightarrow>
          if falsy_token token then (req, [Redirect ''/login.html''])
          else
            (case jwt_verify L now token (JWT_SECRET e) of
               Inl err \<Rightarrow> (req, [Redirect ''/login.html''])
             | Inr user \<Rightarrow> (req\<lparr>req_user := Some user\<rparr>, [Next])))"

subsection \<open>Password hashing\<close>

text \<open>
  \<open>await bcrypt.compare(password, hash)\<close> and \<open>await bcrypt.hash(password, 10)\<close>: for a
  password that is not a string the promise is rejected (\<open>Illegal arguments\<close>), and the
  \<open>await\<close> raises into the \<open>catch\<close> block of the handler; for a string the result is
  that of the package.
\<close>

datatype bcrypt_error = IllegalArguments

definition await_bcrypt_compare :: "'sig libs \<Rightarrow> string option \<Rightarrow> string \<Rightarrow> bcrypt_error + bool" where
  "await_bcrypt_compare L password hash =
     (case password of
        None \<Rightarrow> Inl IllegalArguments
      | Some p \<Rightarrow> Inr (bcrypt_compare L p hash))"

definition await_bcrypt_hash :: "'sig libs \<Rightarrow> string option \<Rightarrow> nat \<Rightarrow> bcrypt_error + string" where
  "await_bcrypt_hash L password rounds =
     (case password of
        None \<Rightarrow> Inl IllegalArguments
      | Some p \<Rightarrow> Inr (bcrypt_hash L p rounds))"

subsection \<open>The document store\<close>

text \<open>
  The collections \<open>users\<close> and \<open>vehicles\<close> in insertion order, the next \<open>_id\<close> the store
  hands out, and whether the store answers: when it does not, every call on it is a
  rejected promise.
\<close>

record db =
  users :: "user list"
  vehicles :: "vehicle list"
  next_id :: nat
  available :: bool

datatype db_error = StoreUnavailable

text \<open>\<open>db.collection('users').findOne({ email })\<close>: the first document with that email, or \<open>null\<close>.\<close>

definition findOne_users :: "db \<Rightarrow> string \<Rightarrow> db_error + user option" where
  "findOne_users d em =
     (if available d then Inr (find (\<lambda>u. u_email u = em) (users d)) else Inl StoreUnavailable)"

text \<open>
  \<open>db.collection('users').insertOne(newUser)\<close>: the store assigns \<open>_id\<close>, writes it into
  the object that was passed (the second component of the result is \<open>newUser\<close>
  afterwards), and appends the document.
\<close>

definition insertOne_users :: "db \<Rightarrow> new_user \<Rightarrow> db_error + (db \<times> user)" where
  "insertOne_users d newUser =
     (if available d
      then (let u = \<lparr>u_name = u_name newUser, u_mobile = u_mobile newUser,
                     u_email = u_email newUser, u_password = u_password newUser,
                     u_id = next_id d\<rparr>
            in Inr (d\<lparr>users := users d @ [u], next_id := Suc (next_id d)\<rparr>, u))
      else Inl StoreUnavailable)"

text \<open>
  \<open>db.collection('vehicles').find({ vehicleType }).toArray()\<close>: for a string, the
  documents whose field \<open>vehicleType\<close> equals it. What the driver makes of a filter
  value that is a function or an object is the parameter \<open>filter_matches\<close>, applied to
  the name of that value.
\<close>

definition find_vehicles :: "'sig libs \<Rightarrow> db \<Rightarrow> js_value \<Rightarrow> db_error + vehicle list" where
  "find_vehicles L d q =
     (if available d
      then Inr (filter (\<lambda>v. case q of
                              JString s \<Rightarrow> v_vehicleType v = s
                            | JFunction f \<Rightarrow> filter_matches L f v
                            | JObject ob \<Rightarrow> filter_matches L ob v
                            | JUndefined \<Rightarrow> False) (vehicles d))
      else Inl StoreUnavailable)"

subsection \<open>Public routes\<close>

text \<open>\<open>app.post("/login")\<close>\<close>

definition login ::
  "'sig libs \<Rightarrow> env \<Rightarrow> nat \<Rightarrow> db \<Rightarrow> 'sig request \<Rightarrow> db \<times> 'sig effect list" where
  "login L e now d req =
     (let email = body_email req; password = body_password req in
      case findOne_users d email of
        Inl err \<Rightarrow>
          (d, [FindOne_users email, ConsoleError ''Error during login:'', Status 500,
               Send ''An error occurred during the login process.''])
      | Inr user \<Rightarrow>
          (case user of
             None \<Rightarrow> (d, [FindOne_users email, Redirect ''/login.html?error=invalid''])
           | Some u \<Rightarrow>
               (case await_bcrypt_compare L password (u_password u) of
                  Inl err \<Rightarrow>
                    (d, [FindOne_users email, ConsoleError ''Error during login:'', Status 500,
                         Send ''An error occurred during the login process.''])
                | Inr matches \<Rightarrow>
                    if \<not> matches
                    then (d, [FindOne_users email, Redirect ''/login.html?error=invalid''])
                    else
                      (let payload = \<lparr>ident_id = u_id u, ident_email = u_email u\<rparr> in
                       case jwt_sign L now payload (JWT_SECRET e) expiresIn_1h of
                         Inl err \<Rightarrow>
                           (d, [FindOne_users email, ConsoleError ''Error during login:'',
                                Status 500, Send ''An error occurred during the login process.''])
                       | Inr token \<Rightarrow>
                           (d, [FindOne_users email, Cookie ''token'' token True,
                                Redirect ''/home''])))))"

text \<open>\<open>app.post("/signup")\<close>\<close>

definition signup ::
  "'sig libs \<Rightarrow> env \<Rightarrow> nat \<Rightarrow> db \<Rightarrow> 'sig request \<Rightarrow> db \<times> 'sig effect list" where
  "signup L e now d req =
     (let name = body_name req; mobile = body_mobile req; email = body_email req;
          password = body_password req
      in
      case await_bcrypt_hash L password 10 of
        Inl err \<Rightarrow>
          (d, [ConsoleError ''Error inserting user record:'', Status 500,
               Send ''Error inserting record.''])
      | Inr hashedPassword \<Rightarrow>
          (let newUser = \<lparr>u_name = name, u_mobile = mobile, u_email = email,
                          u_password = hashedPassword\<rparr>
           in
           case insertOne_users d newUser of
             Inl err \<Rightarrow>
               (d, [InsertOne_users newUser, ConsoleError ''Error inserting user record:'',
                    Status 500, Send ''Error inserting record.''])
           | Inr (d', newUser') \<Rightarrow>
               (let payload = \<lparr>ident_id = u_id newUser', ident_email = u_email newUser'\<rparr> in
                case jwt_sign L now payload (JWT_SECRET e) expiresIn_1h of
                  Inl err \<Rightarrow>
                    (d', [InsertOne_users newUser,
                          ConsoleLog (''Record inserted for: '' @ email),
                          ConsoleError ''Error inserting user record:'', Status 500,
                          Send ''Error inserting record.''])
                | Inr token \<Rightarrow>
                    (d', [InsertOne_users newUser,
                          ConsoleLog (''Record inserted for: '' @ email),
                          Cookie ''token'' token True, Redirect ''/home'']))))"

text \<open>\<open>app.get("/logout")\<close>\<close>

definition logout :: "db \<Rightarrow> 'sig request \<Rightarrow> db \<times> 'sig effect list" where
  "logout d req = (d, [ClearCookie ''token'', Redirect ''/login.html''])"

subsection \<open>Protected routes\<close>

text \<open>\<open>app.get('/home', authenticateToken, ...)\<close> and \<open>app.get('/explore', authenticateToken, ...)\<close>\<close>

definition home :: "db \<Rightarrow> 'sig request \<Rightarrow> db \<times> 'sig effect list" where
  "home d req = (d, [SendFile ''public/home.html''])"

definition explore :: "db \<Rightarrow> 'sig request \<Rightarrow> db \<times> 'sig effect list" where
  "explore d req = (d, [SendFile ''public/explore.html''])"

text \<open>
  \<open>vehicleTypeMap\<close> is an object literal: its own properties are the nine entries, and
  a property it does not own is looked up on \<open>Object.prototype\<close>.
\<close>

definition vehicleTypeMap :: "(string \<times> string) list" where
  "vehicleTypeMap =
     [(''excavators'', ''Excavator''), (''bulldozers'', ''Bulldozer''),
      (''mini-excavators'', ''Miniexcavator''), (''backhoe-loaders'', ''Backhoe Loader''),
      (''loaders'', ''Loader''), (''motor-graders'', ''Motor Grader''),
      (''piling-rigs'', ''Piling Rig''), (''augers'', ''Auger''), (''tractors'', ''Tractor'')]"

definition Object_prototype :: "string \<Rightarrow> js_value" where
  "Object_prototype key =
     (if key \<in> set [''constructor'', ''hasOwnProperty'', ''isPrototypeOf'',
                     ''propertyIsEnumerable'', ''toLocaleString'', ''toString'', ''valueOf'',
                     ''__defineGetter__'', ''__defineSetter__'', ''__lookupGetter__'',
                     ''__lookupSetter__'']
      then JFunction (if key = ''constructor'' then ''Object'' else key)
      else if key = ''__proto__'' then JObject ''Object.prototype''
      else JUndefined)"

text \<open>\<open>obj[key]\<close> for an object literal \<open>obj\<close> with string-valued own properties.\<close>

definition js_get :: "(string \<times> string) list \<Rightarrow> string \<Rightarrow> js_value" where
  "js_get obj key = (case map_of obj key of Some s \<Rightarrow> JString s | None \<Rightarrow> Object_prototype key)"

text \<open>The truth value of a JavaScript value in a condition.\<close>

definition truthy :: "js_value \<Rightarrow> bool" where
  "truthy v = (case v of JUndefined \<Rightarrow> False | JString s \<Rightarrow> s \<noteq> [] | JFunction f \<Rightarrow> True
               | JObject ob \<Rightarrow> True)"

text \<open>The value inside a template literal.\<close>

definition js_toString :: "js_value \<Rightarrow> string" where
  "js_toString v = (case v of JUndefined \<Rightarrow> ''undefined'' | JString s \<Rightarrow> s
                    | JFunction f \<Rightarrow> ''function '' @ f @ ''() { [native code] }''
                    | JObject ob \<Rightarrow> ''[object Object]'')"

text \<open>\<open>app.get("/vehicles/:type", authenticateToken, ...)\<close>\<close>

definition vehicles_type :: "'sig libs \<Rightarrow> db \<Rightarrow> 'sig request \<Rightarrow> db \<times> 'sig effect list" where
  "vehicles_type L d req =
     (let vehicleType = js_get vehicleTypeMap (params_type req) in
      if \<not> truthy vehicleType then (d, [Status 404, Send ''Vehicle category not found.''])
      else
        (case find_vehicles L d vehicleType of
           Inr vs \<Rightarrow> (d, [Find_vehicles vehicleType, Render ''excavator'' vs])
         | Inl err \<Rightarrow>
             (d, [Find_vehicles vehicleType,
                  ConsoleError (''Error fetching '' @ js_toString vehicleType @ '':''),
                  Status 500, Send ''Failed to retrieve data.''])))"

text \<open>
  A route \<open>app.get(path, authenticateToken, handler)\<close>: the handler runs, on the request
  the middleware hands on, only when the middleware has called \<open>next()\<close>.
\<close>

definition protected ::
  "('sig request \<Rightarrow> 'sig request \<times> 'sig effect list) \<Rightarrow>
   (db \<Rightarrow> 'sig request \<Rightarrow> db \<times> 'sig effect list) \<Rightarrow> db \<Rightarrow> 'sig request \<Rightarrow> db \<times> 'sig effect list" where
  "protected gate handler d req =
     (case gate req of (req', effs) \<Rightarrow>
        if Next \<in> set effs
        then (case handler d req' of (d', effs') \<Rightarrow> (d', effs @ effs'))
        else (d, effs))"

text \<open>The routes of the application that are modelled, and the dispatch on them.\<close>

datatype route = POST_login | POST_signup | GET_logout | GET_home | GET_explore | GET_vehicles

definition handle ::
  "'sig libs \<Rightarrow> env \<Rightarrow> nat \<Rightarrow> db \<Rightarrow> route \<Rightarrow> 'sig request \<Rightarrow> db \<times> 'sig effect list" where
  "handle L e now d r req =
     (case r of
        POST_login \<Rightarrow> login L e now d req
      | POST_signup \<Rightarrow> signup L e now d req
      | GET_logout \<Rightarrow> logout d req
      | GET_home \<Rightarrow> protected (authenticateToken L e now) home d req
      | GET_explore \<Rightarrow> protected (authenticateToken L e now) explore d req
      | GET_vehicles \<Rightarrow> protected (authenticateToken L e now) (vehicles_type L) d req)"

subsection \<open>Server startup\<close>

text \<open>\<open>const port = process.env.PORT || 1337\<close>\<close>

definition port :: "env \<Rightarrow> string" where
  "port e = (case PORT e of None \<Rightarrow> ''1337'' | Some p \<Rightarrow> if p = [] then ''1337'' else p)"

datatype process = Listening string | Exited nat

text \<open>
  What \<open>app.listen(port, callback)\<close> does with a port: it binds and later runs the
  callback; or it throws at once (a port outside 0..65535, such as 99999); or it
  returns and the server later emits an \<open>error\<close> event (the port is in use), which
  nothing in the source listens for.
\<close>

datatype listen_outcome = Listens | Throws | EmitsError

text \<open>
  \<open>startServer\<close>: \<open>connected\<close> tells whether \<open>client.connect()\<close> resolves, \<open>listen\<close> what
  \<open>app.listen\<close> does with a port. A rejected connection and a throwing \<open>app.listen\<close> are
  both inside the \<open>try\<close> and reach \<open>process.exit(1)\<close>; an \<open>error\<close> event without listener
  is an uncaught exception, with which the runtime ends the process (exit code 1).
  Otherwise the process listens on the port. The console messages are given without
  their emoji.
\<close>

definition startServer ::
  "env \<Rightarrow> bool \<Rightarrow> (string \<Rightarrow> listen_outcome) \<Rightarrow> process \<times> unit effect list" where
  "startServer e connected listen =
     (if \<not> connected then (Exited 1, [ConsoleError ''Failed to connect to MongoDB''])
      else
        (case listen (port e) of
           Listens \<Rightarrow>
             (Listening (port e),
              [ConsoleLog ''Successfully connected to MongoDB.'',
               ConsoleLog (''Server is running on http://localhost:'' @ port e)])
         | Throws \<Rightarrow>
             (Exited 1,
              [ConsoleLog ''Successfully connected to MongoDB.'',
               ConsoleError ''Failed to connect to MongoDB''])
         | EmitsError \<Rightarrow>
             (Exited 1, [ConsoleLog ''Successfully connected to MongoDB.''])))"

subsection \<open>The client's cookie jar\<close>

text \<open>
  What a browser keeps of the cookie \<open>token\<close> after a response: \<open>res.cookie\<close> stores the
  value, \<open>res.clearCookie\<close> discards it.
\<close>

fun jar_after :: "'sig artifact option \<Rightarrow> 'sig effect list \<Rightarrow> 'sig artifact option" where
  "jar_after jar [] = jar"
| "jar_after jar (Cookie n v h # effs) = jar_after (if n = ''token'' then Some v else jar) effs"
| "jar_after jar (ClearCookie n # effs) = jar_after (if n = ''token'' then None else jar) effs"
| "jar_after jar (x # effs) = jar_after jar effs"

subsection \<open>Observations on effect lists\<close>

fun is_redirect :: "'sig effect \<Rightarrow> bool" where
  "is_redirect (Redirect url) = True"
| "is_redirect x = False"

fun is_cookie :: "'sig effect \<Rightarrow> bool" where
  "is_cookie (Cookie n v h) = True"
| "is_cookie x = False"

subsection \<open>Concrete inputs\<close>

text \<open>
  Stand-ins for the packages, used where a statement is evaluated on a concrete input:
  the signature is the pair of key and signed fields, the password hash a prefix.
\<close>

definition lib0 :: "(string \<times> claims) libs" where
  "lib0 = \<lparr>mac = (\<lambda>k c. (k, c)), bcrypt_hash = (\<lambda>p n. ''$2b$10$'' @ p),
           bcrypt_compare = (\<lambda>p h. h = ''$2b$10$'' @ p), filter_matches = (\<lambda>q v. False)\<rparr>"

definition env0 :: env where
  "env0 = \<lparr>JWT_SECRET = Some ''s3cret'', PORT = None\<rparr>"

definition env_no_secret :: env where
  "env_no_secret = \<lparr>JWT_SECRET = None, PORT = None\<rparr>"

text \<open>A host on which every port in range is free; on 99999 \<open>app.listen\<close> throws.\<close>

definition listen0 :: "string \<Rightarrow> listen_outcome" where
  "listen0 p = (if p = ''99999'' then Throws else Listens)"

definition request0 :: "(string \<times> claims) request" where
  "request0 = \<lparr>cookies_token = None, body_name = [], body_mobile = [], body_email = [],
               body_password = None, params_type = [], req_user = None\<rparr>"

definition token0 :: "(string \<times> claims) artifact" where
  "token0 = issue (mac lib0) ''s3cret'' 1000 7 ''a@x.com'' expiresIn_1h"

definition db0 :: db where
  "db0 = \<lparr>users = [\<lparr>u_name = ''A'', u_mobile = ''1'', u_email = ''a@x.com'',
                     u_password = ''$2b$10$secret'', u_id = 7\<rparr>],
          vehicles = [], next_id = 8, available = True\<rparr>"

section \<open>Properties\<close>

subsection \<open>Auxiliary facts\<close>

lemma jwt_verify_Inr:
  "jwt_verify L now a s = Inr u \<longleftrightarrow>
     (\<exists>c k. a = Jwt c \<and> s = Some k \<and> k \<noteq> [] \<and> signature c = mac L k (claims_of c)
        \<and> now \<le> expires_at c \<and> u = identity_of c)"
  by (auto simp: jwt_verify_def verify_def split: option.splits artifact.splits)

lemma authenticateToken_cases:
  "authenticateToken L e now req = (req, [Redirect ''/login.html'']) \<or>
   (\<exists>c k. cookies_token req = Some (Jwt c) \<and> JWT_SECRET e = Some k \<and> k \<noteq> []
      \<and> signature c = mac L k (claims_of c) \<and> now \<le> expires_at c
      \<and> authenticateToken L e now req = (req\<lparr>req_user := Some (identity_of c)\<rparr>, [Next]))"
  by (auto simp: authenticateToken_def jwt_verify_Inr split: option.splits sum.splits)

lemma verify_issue:
  "now' \<le> now + ttl \<Longrightarrow>
   verify f k now' (issue f k now sid semail ttl) = Inr \<lparr>ident_id = sid, ident_email = semail\<rparr>"
  by (simp add: verify_def issue_def claims_of_def identity_of_def)

lemma verify_expired:
  "expires_at c < now \<Longrightarrow> verify f k now (Jwt c) = Inl Invalid"
  by (simp add: verify_def)

lemma authenticateToken_issued:
  assumes "JWT_SECRET e = Some k" and "k \<noteq> []" and "now' \<le> now + ttl"
    and "cookies_token req = Some (issue (mac L) k now sid semail ttl)"
  shows "authenticateToken L e now' req =
           (req\<lparr>req_user := Some \<lparr>ident_id = sid, ident_email = semail\<rparr>\<rparr>, [Next])"
proof -
  have "\<not> falsy_token (issue (mac L) k now sid semail ttl)"
    by (simp add: falsy_token_def issue_def)
  with assms show ?thesis
    by (simp add: authenticateToken_def jwt_verify_def verify_issue)
qed

lemma authenticateToken_rejects:
  assumes "cookies_token req = None \<or>
           (\<exists>a. cookies_token req = Some a \<and> jwt_verify L now a (JWT_SECRET e) = Inl Invalid)"
  shows "authenticateToken L e now req = (req, [Redirect ''/login.html''])"
  using assms by (auto simp: authenticateToken_def)

lemma protected_forward:
  "gate req = (req', [Next]) \<Longrightarrow>
   protected gate handler d req = (fst (handler d req'), Next # snd (handler d req'))"
  by (simp add: protected_def split: prod.splits)

lemma protected_redirect:
  "gate req = (req', [Redirect url]) \<Longrightarrow> protected gate handler d req = (d, [Redirect url])"
  by (simp add: protected_def)

lemma login_Cookie:
  assumes "Cookie n tok h \<in> set (snd (login L e now d req))"
  shows "\<exists>k sid semail. JWT_SECRET e = Some k \<and> k \<noteq> [] \<and>
           tok = issue (mac L) k now sid semail expiresIn_1h"
  using assms
  by (auto simp: login_def jwt_sign_def Let_def await_bcrypt_compare_def
      split: sum.splits option.splits if_splits)

lemma signup_Cookie:
  assumes "Cookie n tok h \<in> set (snd (signup L e now d req))"
  shows "\<exists>k sid semail. JWT_SECRET e = Some k \<and> k \<noteq> [] \<and>
           tok = issue (mac L) k now sid semail expiresIn_1h"
  using assms
  by (auto simp: signup_def jwt_sign_def Let_def await_bcrypt_hash_def
      split: sum.splits option.splits if_splits prod.splits)

lemma handle_home_forward:
  "authenticateToken L e now req = (req', [Next]) \<Longrightarrow>
   handle L e now d GET_home req = (d, [Next, SendFile ''public/home.html''])"
  by (simp add: handle_def protected_forward home_def)

lemma handle_home_redirect:
  "authenticateToken L e now req = (req', [Redirect url]) \<Longrightarrow>
   handle L e now d GET_home req = (d, [Redirect url])"
  by (simp add: handle_def protected_redirect)

lemma signup_success:
  assumes "available d" and "JWT_SECRET e = Some k" and "k \<noteq> []"
    and "body_password req = Some pw"
  shows "signup L e now d req =
     (d\<lparr>users := users d @
            [\<lparr>u_name = body_name req, u_mobile = body_mobile req, u_email = body_email req,
              u_password = bcrypt_hash L pw 10, u_id = next_id d\<rparr>],
        next_id := Suc (next_id d)\<rparr>,
      [InsertOne_users \<lparr>u_name = body_name req, u_mobile = body_mobile req,
                        u_email = body_email req, u_password = bcrypt_hash L pw 10\<rparr>,
       ConsoleLog (''Record inserted for: '' @ body_email req),
       Cookie ''token'' (issue (mac L) k now (next_id d) (body_email req) 3600) True,
       Redirect ''/home''])"
  using assms
  by (simp add: signup_def await_bcrypt_hash_def insertOne_users_def jwt_sign_def
      expiresIn_1h_def Let_def)

lemma login_success:
  assumes "available d" and "JWT_SECRET e = Some k" and "k \<noteq> []"
    and "find (\<lambda>u. u_email u = body_email req) (users d) = Some u"
    and "body_password req = Some pw"
    and "bcrypt_compare L pw (u_password u)"
  shows "login L e now d req =
           (d, [FindOne_users (body_email req),
                Cookie ''token'' (issue (mac L) k now (u_id u) (u_email u) 3600) True,
                Redirect ''/home''])"
  using assms
  by (simp add: login_def findOne_users_def await_bcrypt_compare_def jwt_sign_def
      expiresIn_1h_def)

lemma login_no_secret:
  assumes "JWT_SECRET e = None \<or> JWT_SECRET e = Some []" and "available d"
    and "find (\<lambda>u. u_email u = body_email req) (users d) = Some u"
    and "body_password req = Some pw"
    and "bcrypt_compare L pw (u_password u)"
  shows "login L e now d req =
           (d, [FindOne_users (body_email req), ConsoleError ''Error during login:'',
                Status 500, Send ''An error occurred during the login process.''])"
  using assms
  by (auto simp: login_def findOne_users_def await_bcrypt_compare_def jwt_sign_def)

subsection \<open>The gate\<close>

text \<open>
  C1. For every request the middleware \<open>authenticateToken\<close> does exactly one of two
  things. Either it calls \<open>next()\<close> and nothing else, and then the cookie of this very
  request decodes to a credential whose signature matches under the configured
  (non-empty) secret and which has not expired at the time of this request, and
  \<open>req.user\<close> is the identity of that credential. Or it redirects to \<open>/login.html\<close>
  and nothing else, and the request is left as it was. On a protected route the
  handler runs, on the request with the identity, in the first case only.
\<close>

theorem gate_resolves_to_exactly_one:
  "(snd (authenticateToken L e now req) = [Next]
      \<and> \<not> list_ex is_redirect (snd (authenticateToken L e now req))
      \<and> (\<exists>c k. cookies_token req = Some (Jwt c) \<and> JWT_SECRET e = Some k \<and> k \<noteq> []
             \<and> signature c = mac L k (claims_of c) \<and> now \<le> expires_at c
             \<and> fst (authenticateToken L e now req) = req\<lparr>req_user := Some (identity_of c)\<rparr>)
      \<and> protected (authenticateToken L e now) handler d req =
            (fst (handler d (fst (authenticateToken L e now req))),
             Next # snd (handler d (fst (authenticateToken L e now req)))))
   \<or>
   (snd (authenticateToken L e now req) = [Redirect ''/login.html'']
      \<and> Next \<notin> set (snd (authenticateToken L e now req))
      \<and> fst (authenticateToken L e now req) = req
      \<and> protected (authenticateToken L e now) handler d req = (d, [Redirect ''/login.html'']))"
proof -
  consider (redirect) "authenticateToken L e now req = (req, [Redirect ''/login.html''])"
    | (forward) c k where "cookies_token req = Some (Jwt c)" "JWT_SECRET e = Some k" "k \<noteq> []"
        "signature c = mac L k (claims_of c)" "now \<le> expires_at c"
        "authenticateToken L e now req = (req\<lparr>req_user := Some (identity_of c)\<rparr>, [Next])"
    using authenticateToken_cases [of L e now req] by blast
  then show ?thesis
  proof cases
    case redirect
    then show ?thesis by (simp add: protected_redirect)
  next
    case forward
    then show ?thesis by (simp add: protected_forward)
  qed
qed

theorem gate_resolves_to_exactly_one_witness:
  "authenticateToken lib0 env0 1200 (request0\<lparr>cookies_token := Some token0\<rparr>) =
     (request0\<lparr>cookies_token := Some token0,
               req_user := Some \<lparr>ident_id = 7, ident_email = ''a@x.com''\<rparr>\<rparr>, [Next]) \<and>
   authenticateToken lib0 env0 1200 (request0\<lparr>cookies_token := Some (Raw ''abc'')\<rparr>) =
     (request0\<lparr>cookies_token := Some (Raw ''abc'')\<rparr>, [Redirect ''/login.html''])"
  using gate_resolves_to_exactly_one
    [of lib0 env0 1200 "request0\<lparr>cookies_token := Some token0\<rparr>" home db0]
    gate_resolves_to_exactly_one
    [of lib0 env0 1200 "request0\<lparr>cookies_token := Some (Raw ''abc'')\<rparr>" home db0]
  by (simp add: authenticateToken_def jwt_verify_def verify_def falsy_token_def token0_def
      issue_def lib0_def env0_def request0_def claims_of_def identity_of_def expiresIn_1h_def)

subsection \<open>The codec\<close>

text \<open>
  C2. Round trip: a credential issued for a subject id and email, verified before its
  expiry with the same secret, is accepted, and the identity returned is the pair it
  was issued for. This holds for the codec and for the two calls \<open>jwt_sign\<close> and
  \<open>jwt_verify\<close> as the source makes them.
\<close>

theorem credential_round_trip:
  assumes "now' < now + ttl" and "k \<noteq> []"
  shows "verify f k now' (issue f k now sid semail ttl) = Inr \<lparr>ident_id = sid, ident_email = semail\<rparr> \<and>
         (\<exists>tok. jwt_sign L now \<lparr>ident_id = sid, ident_email = semail\<rparr> (Some k) ttl = Inr tok \<and>
                jwt_verify L now' tok (Some k) = Inr \<lparr>ident_id = sid, ident_email = semail\<rparr>)"
  using assms by (simp add: verify_issue jwt_sign_def jwt_verify_def)

theorem credential_round_trip_witness:
  "(1200::nat) < 1000 + 3600 \<and> ''s3cret'' \<noteq> [] \<and>
   verify (mac lib0) ''s3cret'' 1200 (issue (mac lib0) ''s3cret'' 1000 7 ''a@x.com'' 3600)
     = Inr \<lparr>ident_id = 7, ident_email = ''a@x.com''\<rparr>"
  using credential_round_trip [where now' = 1200 and now = 1000 and ttl = 3600
      and f = "mac lib0" and k = "''s3cret''" and sid = 7 and semail = "''a@x.com''" and L = lib0]
  by simp

text \<open>
  C3. Every credential that login or signup attaches is issued at the time of the
  request with an expiry exactly 3600 seconds later, whatever the request; and
  verifying it at any time later than that expiry, under any secret, fails as
  \<open>Invalid\<close>. For the codec in general: a credential issued with time-to-live \<open>T\<close> is
  rejected at \<open>issued_at + T + eps\<close> for every \<open>eps > 0\<close>.
\<close>

theorem fixed_ttl_expiry:
  assumes "Cookie n tok h \<in> set (snd (login L e now d req)) \<union> set (snd (signup L e now d req))"
    and "0 < eps"
  shows "(\<exists>c. tok = Jwt c \<and> issued_at c = now \<and> expires_at c = issued_at c + 3600 \<and>
             (\<forall>k. verify (mac L) k (issued_at c + 3600 + eps) tok = Inl Invalid) \<and>
             jwt_verify L (issued_at c + 3600 + eps) tok (JWT_SECRET e) = Inl Invalid) \<and>
         verify f k0 (now0 + T + eps) (issue f k0 now0 sid0 semail0 T) = Inl Invalid"
proof -
  from assms(1) obtain k sid semail where tok: "tok = issue (mac L) k now sid semail expiresIn_1h"
    using login_Cookie signup_Cookie by (metis Un_iff)
  define c where "c = \<lparr>subject_id = sid, subject_email = semail, issued_at = now,
     expires_at = now + 3600, signature = mac L k (sid, semail, now, now + 3600)\<rparr>"
  have t: "tok = Jwt c" by (simp add: tok c_def issue_def expiresIn_1h_def)
  have ex: "expires_at c < issued_at c + 3600 + eps" using assms(2) by (simp add: c_def)
  have v: "\<And>k'. verify (mac L) k' (issued_at c + 3600 + eps) tok = Inl Invalid"
    unfolding t using ex by (rule verify_expired)
  have j: "jwt_verify L (issued_at c + 3600 + eps) tok (JWT_SECRET e) = Inl Invalid"
    by (simp add: jwt_verify_def v split: option.splits)
  have g: "verify f k0 (now0 + T + eps) (issue f k0 now0 sid0 semail0 T) = Inl Invalid"
    unfolding issue_def using assms(2) by (intro verify_expired) simp
  from t v j have "\<exists>c. tok = Jwt c \<and> issued_at c = now \<and> expires_at c = issued_at c + 3600 \<and>
             (\<forall>k. verify (mac L) k (issued_at c + 3600 + eps) tok = Inl Invalid) \<and>
             jwt_verify L (issued_at c + 3600 + eps) tok (JWT_SECRET e) = Inl Invalid"
    by (intro exI [of _ c]) (simp add: c_def)
  with g show ?thesis by simp
qed

theorem fixed_ttl_expiry_witness:
  "Cookie ''token'' token0 True \<in>
     set (snd (login lib0 env0 1000 db0
                 (request0\<lparr>body_email := ''a@x.com'', body_password := Some ''secret''\<rparr>))) \<and>
   (0::nat) < 1 \<and>
   verify (mac lib0) ''s3cret'' (1000 + 3600 + 1) token0 = Inl Invalid"
proof -
  let ?req = "request0\<lparr>body_email := ''a@x.com'', body_password := Some ''secret''\<rparr>"
  have h: "Cookie ''token'' token0 True \<in> set (snd (login lib0 env0 1000 db0 ?req))"
    by (simp add: login_def findOne_users_def await_bcrypt_compare_def jwt_sign_def token0_def
        lib0_def env0_def db0_def request0_def Let_def)
  then have h': "Cookie ''token'' token0 True \<in>
      set (snd (login lib0 env0 1000 db0 ?req)) \<union> set (snd (signup lib0 env0 1000 db0 ?req))"
    by simp
  have e: "(0::nat) < 1" by simp
  from fixed_ttl_expiry [OF h' e, of "mac lib0" "''s3cret''" 1000 3600 7 "''a@x.com''"]
  have "verify (mac lib0) ''s3cret'' (1000 + 3600 + 1) token0 = Inl Invalid"
    by (simp add: token0_def expiresIn_1h_def)
  with h e show ?thesis by simp
qed

subsection \<open>Rejection\<close>

text \<open>
  C4. Take a request without the cookie and a request whose cookie is structurally
  invalid: a string that does not decode, or a credential whose signature does not
  match under the configured secret or whose expiry has passed. On every protected
  route the two get the same answer, the redirect to \<open>/login.html\<close> and nothing else
  (no log line, no status, no body); the store and both requests are left unchanged.
\<close>

theorem uniform_rejection:
  assumes "r \<in> {GET_home, GET_explore, GET_vehicles}"
    and "cookies_token req1 = None"
    and "cookies_token req2 = Some a"
    and "(\<exists>s. a = Raw s) \<or>
         (\<exists>c. a = Jwt c \<and>
            (\<forall>k. JWT_SECRET e = Some k \<and> k \<noteq> [] \<longrightarrow>
               signature c \<noteq> mac L k (claims_of c) \<or> expires_at c < now))"
  shows "handle L e now d r req1 = (d, [Redirect ''/login.html'']) \<and>
         handle L e now d r req2 = (d, [Redirect ''/login.html'']) \<and>
         authenticateToken L e now req1 = (req1, [Redirect ''/login.html'']) \<and>
         authenticateToken L e now req2 = (req2, [Redirect ''/login.html''])"
proof -
  have 1: "authenticateToken L e now req1 = (req1, [Redirect ''/login.html''])"
    using assms(2) by (simp add: authenticateToken_rejects)
  have "jwt_verify L now a (JWT_SECRET e) = Inl Invalid"
    using assms(4) by (auto simp: jwt_verify_def verify_def split: option.splits)
  then have 2: "authenticateToken L e now req2 = (req2, [Redirect ''/login.html''])"
    using assms(3) by (simp add: authenticateToken_rejects)
  from assms(1) 1 2 show ?thesis
    by (auto simp: handle_def protected_redirect)
qed

theorem uniform_rejection_witness:
  "cookies_token request0 = None \<and>
   expires_at \<lparr>subject_id = 7, subject_email = ''a@x.com'', issued_at = 1000,
     expires_at = 4600, signature = (''s3cret'', 7, ''a@x.com'', 1000, 4600)\<rparr> < (5000::nat) \<and>
   handle lib0 env0 5000 db0 GET_home request0 = (db0, [Redirect ''/login.html'']) \<and>
   handle lib0 env0 5000 db0 GET_home (request0\<lparr>cookies_token := Some token0\<rparr>) =
     (db0, [Redirect ''/login.html''])"
  using uniform_rejection [of GET_home request0 "request0\<lparr>cookies_token := Some token0\<rparr>"
      token0 env0 lib0 5000 db0]
  by (simp add: request0_def token0_def issue_def env0_def expiresIn_1h_def)

subsection \<open>Login\<close>

text \<open>
  C5, at the input where the source departs from it. Two login requests without a
  \<open>password\<close> field, to a process with store and secret in order: for the email of a
  stored user the lookup succeeds, \<open>bcrypt.compare\<close> is called with \<open>undefined\<close> and
  rejects, and the \<open>catch\<close> block answers with status 500; for an email no user has, the
  comparison is never called and the answer is the redirect to
  \<open>/login.html?error=invalid\<close>. The two answers differ, so the failure is not uniform
  and tells whether the email belongs to a user.
\<close>

theorem login_distinguishes_known_email:
  "login lib0 env0 1000 db0 (request0\<lparr>body_email := ''a@x.com'', body_password := None\<rparr>) =
     (db0, [FindOne_users ''a@x.com'', ConsoleError ''Error during login:'', Status 500,
            Send ''An error occurred during the login process.'']) \<and>
   login lib0 env0 1000 db0 (request0\<lparr>body_email := ''b@x.com'', body_password := None\<rparr>) =
     (db0, [FindOne_users ''b@x.com'', Redirect ''/login.html?error=invalid''])"
  by (simp add: login_def findOne_users_def await_bcrypt_compare_def db0_def request0_def
      Let_def)

subsection \<open>Signup\<close>

text \<open>
  C6. Signup with a password, when the store answers and a (non-empty) signing secret
  is configured: the user document with the hashed password is appended to the collection under a
  fresh id, before anything is issued; then a credential for that id and the signed-up
  email is set as the cookie \<open>token\<close> and the client is redirected to \<open>/home\<close>, the same
  two effects with which a login of that user ends. A later request that carries the cookie
  of the signup response, made before the credential expires, passes the gate with
  \<open>req.user\<close> holding the new id and the signed-up email, and is served by the
  protected handler.
\<close>

theorem signup_auto_login:
  assumes "available d" and "JWT_SECRET e = Some k" and "k \<noteq> []" and "now' < now + 3600"
    and "cookies_token req2 = jar_after jar (snd (signup L e now d req))"
    and "body_password req = Some pw"
  shows "signup L e now d req =
     (d\<lparr>users := users d @
            [\<lparr>u_name = body_name req, u_mobile = body_mobile req, u_email = body_email req,
              u_password = bcrypt_hash L pw 10, u_id = next_id d\<rparr>],
        next_id := Suc (next_id d)\<rparr>,
      [InsertOne_users \<lparr>u_name = body_name req, u_mobile = body_mobile req,
                        u_email = body_email req,
                        u_password = bcrypt_hash L pw 10\<rparr>,
       ConsoleLog (''Record inserted for: '' @ body_email req),
       Cookie ''token'' (issue (mac L) k now (next_id d) (body_email req) 3600) True,
       Redirect ''/home'']) \<and>
    (\<forall>d3 req3 u pw3.
        available d3 \<and> find (\<lambda>u. u_email u = body_email req3) (users d3) = Some u \<and>
        body_password req3 = Some pw3 \<and> bcrypt_compare L pw3 (u_password u) \<and>
        u_id u = next_id d \<and> u_email u = body_email req
        \<longrightarrow> drop 1 (snd (login L e now d3 req3)) = drop 2 (snd (signup L e now d req))) \<and>
    authenticateToken L e now' req2 =
      (req2\<lparr>req_user := Some \<lparr>ident_id = next_id d, ident_email = body_email req\<rparr>\<rparr>, [Next]) \<and>
    handle L e now' d2 GET_home req2 = (d2, [Next, SendFile ''public/home.html''])"
proof -
  note s = signup_success [OF assms(1,2,3,6), of L now]
  have c: "cookies_token req2 = Some (issue (mac L) k now (next_id d) (body_email req) 3600)"
    using assms(5) by (simp add: s)
  have g: "authenticateToken L e now' req2 =
      (req2\<lparr>req_user := Some \<lparr>ident_id = next_id d, ident_email = body_email req\<rparr>\<rparr>, [Next])"
    using assms(2,3,4) c by (intro authenticateToken_issued) simp_all
  have l: "\<forall>d3 req3 u pw3.
        available d3 \<and> find (\<lambda>u. u_email u = body_email req3) (users d3) = Some u \<and>
        body_password req3 = Some pw3 \<and> bcrypt_compare L pw3 (u_password u) \<and>
        u_id u = next_id d \<and> u_email u = body_email req
        \<longrightarrow> drop 1 (snd (login L e now d3 req3)) = drop 2 (snd (signup L e now d req))"
    using assms(2,3) by (simp add: s login_success)
  from s g l handle_home_forward [OF g] show ?thesis by simp
qed


theorem signup_auto_login_witness:
  "available db0 \<and> JWT_SECRET env0 = Some ''s3cret'' \<and> ''s3cret'' \<noteq> [] \<and>
   (1001::nat) < 1000 + 3600 \<and>
   authenticateToken lib0 env0 1001
     (request0\<lparr>cookies_token :=
        jar_after None (snd (signup lib0 env0 1000 db0
           (request0\<lparr>body_name := ''N'', body_mobile := ''M'', body_email := ''b@x.com'',
                     body_password := Some ''pw''\<rparr>)))\<rparr>) =
   (request0\<lparr>cookies_token :=
        jar_after None (snd (signup lib0 env0 1000 db0
           (request0\<lparr>body_name := ''N'', body_mobile := ''M'', body_email := ''b@x.com'',
                     body_password := Some ''pw''\<rparr>))),
      req_user := Some \<lparr>ident_id = 8, ident_email = ''b@x.com''\<rparr>\<rparr>, [Next])"
proof -
  let ?req = "request0\<lparr>body_name := ''N'', body_mobile := ''M'', body_email := ''b@x.com'',
                     body_password := Some ''pw''\<rparr>"
  let ?req2 = "request0\<lparr>cookies_token :=
        jar_after None (snd (signup lib0 env0 1000 db0 ?req))\<rparr>"
  have a: "available db0" by (simp add: db0_def)
  have k: "JWT_SECRET env0 = Some ''s3cret''" by (simp add: env0_def)
  have ne: "''s3cret'' \<noteq> []" by simp
  have t: "(1001::nat) < 1000 + 3600" by simp
  have c: "cookies_token ?req2 = jar_after None (snd (signup lib0 env0 1000 db0 ?req))"
    by simp
  have p: "body_password ?req = Some ''pw''" by simp
  from signup_auto_login [OF a k ne t c p, of db0]
  have "authenticateToken lib0 env0 1001 ?req2 =
      (?req2\<lparr>req_user := Some \<lparr>ident_id = next_id db0, ident_email = body_email ?req\<rparr>\<rparr>, [Next])"
    by blast
  then show ?thesis using a k t by (simp add: db0_def request0_def)
qed

subsection \<open>Logout\<close>

text \<open>
  C7. Logout answers with the instruction to discard the cookie \<open>token\<close> and the
  redirect to \<open>/login.html\<close>, and leaves the store as it was. For a credential that a
  login or signup has issued: a client that obeys is left without the cookie and is
  redirected on a protected route; a client that kept the credential and sends it
  again is still forwarded to the protected handler as long as the credential has not
  expired, whatever the state of the store, and is redirected once it has expired.
\<close>

theorem logout_then_replay:
  assumes "Cookie n tok h \<in> set (snd (login L e now d0 rq0)) \<union> set (snd (signup L e now d0 rq0))"
    and "cookies_token req = Some tok"
    and "cookies_token req_none = jar_after (Some tok) (snd (logout d rq))"
  shows "logout d rq = (d, [ClearCookie ''token'', Redirect ''/login.html'']) \<and>
         jar_after (Some tok) (snd (logout d rq)) = None \<and>
         (now' < now + 3600 \<longrightarrow>
            (\<exists>u. authenticateToken L e now' req = (req\<lparr>req_user := Some u\<rparr>, [Next])) \<and>
            handle L e now' d' GET_home req = (d', [Next, SendFile ''public/home.html''])) \<and>
         (now + 3600 < now' \<longrightarrow>
            handle L e now' d' GET_home req = (d', [Redirect ''/login.html''])) \<and>
         handle L e now' d' GET_home req_none = (d', [Redirect ''/login.html''])"
proof -
  from assms(1) obtain k sid semail where k: "JWT_SECRET e = Some k" and ne: "k \<noteq> []"
    and tok: "tok = issue (mac L) k now sid semail expiresIn_1h"
    using login_Cookie signup_Cookie by (metis Un_iff)
  have lo: "logout d rq = (d, [ClearCookie ''token'', Redirect ''/login.html''])"
    by (simp add: logout_def)
  have jar: "jar_after (Some tok) (snd (logout d rq)) = None"
    by (simp add: lo)
  have none: "handle L e now' d' GET_home req_none = (d', [Redirect ''/login.html''])"
    using assms(3) jar by (intro handle_home_redirect [of _ _ _ _ req_none] authenticateToken_rejects) simp
  have fw: "now' < now + 3600 \<Longrightarrow>
      authenticateToken L e now' req =
        (req\<lparr>req_user := Some \<lparr>ident_id = sid, ident_email = semail\<rparr>\<rparr>, [Next])"
    using k ne assms(2) tok
    by (intro authenticateToken_issued [of e k now' now 3600]) (simp_all add: expiresIn_1h_def)
  have ex: "now + 3600 < now' \<Longrightarrow> jwt_verify L now' tok (JWT_SECRET e) = Inl Invalid"
    by (simp add: k ne jwt_verify_def tok issue_def verify_expired expiresIn_1h_def)
  have rd: "now + 3600 < now' \<Longrightarrow>
      handle L e now' d' GET_home req = (d', [Redirect ''/login.html''])"
    using assms(2) ex by (intro handle_home_redirect [of _ _ _ _ req] authenticateToken_rejects) simp
  from lo jar none fw rd show ?thesis
    by (auto simp: handle_home_forward)
qed


theorem logout_then_replay_witness:
  "Cookie ''token'' token0 True \<in>
     set (snd (login lib0 env0 1000 db0
                 (request0\<lparr>body_email := ''a@x.com'', body_password := Some ''secret''\<rparr>))) \<and>
   (1200::nat) < 1000 + 3600 \<and>
   handle lib0 env0 1200 (fst (logout db0 request0)) GET_home
     (request0\<lparr>cookies_token := Some token0\<rparr>) =
     (fst (logout db0 request0), [Next, SendFile ''public/home.html'']) \<and>
   handle lib0 env0 1200 (fst (logout db0 request0)) GET_home
     (request0\<lparr>cookies_token := jar_after (Some token0) (snd (logout db0 request0))\<rparr>) =
     (fst (logout db0 request0), [Redirect ''/login.html''])"
proof -
  let ?rq = "request0\<lparr>body_email := ''a@x.com'', body_password := Some ''secret''\<rparr>"
  let ?replay = "request0\<lparr>cookies_token := Some token0\<rparr>"
  let ?none = "request0\<lparr>cookies_token := jar_after (Some token0) (snd (logout db0 request0))\<rparr>"
  have h: "Cookie ''token'' token0 True \<in> set (snd (login lib0 env0 1000 db0 ?rq))"
    by (simp add: login_def findOne_users_def await_bcrypt_compare_def jwt_sign_def token0_def
        lib0_def env0_def db0_def request0_def Let_def)
  then have h': "Cookie ''token'' token0 True \<in>
      set (snd (login lib0 env0 1000 db0 ?rq)) \<union> set (snd (signup lib0 env0 1000 db0 ?rq))"
    by simp
  have c: "cookies_token ?replay = Some token0" by simp
  have n: "cookies_token ?none = jar_after (Some token0) (snd (logout db0 request0))" by simp
  have t: "(1200::nat) < 1000 + 3600" by simp
  from logout_then_replay [OF h' c n, of 1200 "fst (logout db0 request0)"] t
  have "handle lib0 env0 1200 (fst (logout db0 request0)) GET_home ?replay =
          (fst (logout db0 request0), [Next, SendFile ''public/home.html'']) \<and>
        handle lib0 env0 1200 (fst (logout db0 request0)) GET_home ?none =
          (fst (logout db0 request0), [Redirect ''/login.html''])"
    by blast
  with h t show ?thesis by simp
qed

subsection \<open>Startup\<close>

text \<open>
  C8, as the source has it. The statement that a missing signing secret keeps the
  process from accepting requests fails: with \<open>JWT_SECRET\<close> unset, the store reachable
  and the port free, \<open>startServer\<close> ends listening.
\<close>

theorem startup_without_secret:
  "JWT_SECRET env_no_secret = None \<and>
   fst (startServer env_no_secret True listen0) = Listening ''1337''"
  by (simp add: env_no_secret_def startServer_def port_def listen0_def)

text \<open>
  C8, amended. Absence of the signing secret is not a startup condition:
  \<open>startServer\<close> never reads \<open>JWT_SECRET\<close>, and its outcome and effects are the same
  whatever the variable holds, so the process begins accepting requests without the
  secret whenever it would with it. The absence (the variable unset or empty) is
  met per request instead: a login with a known email and the right password answers
  the generic status 500 and sets no cookie.
\<close>

theorem startup_ignores_secret:
  "startServer (e\<lparr>JWT_SECRET := s\<rparr>) connected listen = startServer e connected listen \<and>
   ((JWT_SECRET e = None \<or> JWT_SECRET e = Some []) \<and> available d \<and>
    find (\<lambda>u. u_email u = body_email req) (users d) = Some u \<and>
    body_password req = Some pw \<and> bcrypt_compare L pw (u_password u)
    \<longrightarrow> login L e now d req =
          (d, [FindOne_users (body_email req), ConsoleError ''Error during login:'', Status 500,
               Send ''An error occurred during the login process.'']) \<and>
        \<not> list_ex is_cookie (snd (login L e now d req)))"
proof -
  have p: "port (e\<lparr>JWT_SECRET := s\<rparr>) = port e"
    by (simp add: port_def)
  have 1: "startServer (e\<lparr>JWT_SECRET := s\<rparr>) connected listen = startServer e connected listen"
    unfolding startServer_def p by (rule refl)
  have 2: "login L e now d req =
          (d, [FindOne_users (body_email req), ConsoleError ''Error during login:'', Status 500,
               Send ''An error occurred during the login process.''])"
    if "JWT_SECRET e = None \<or> JWT_SECRET e = Some []" "available d"
      "find (\<lambda>u. u_email u = body_email req) (users d) = Some u"
      "body_password req = Some pw" "bcrypt_compare L pw (u_password u)"
    using that by (rule login_no_secret)
  from 1 2 show ?thesis by auto
qed

theorem startup_ignores_secret_witness:
  "JWT_SECRET env_no_secret = None \<and> available db0 \<and>
   startServer env_no_secret True listen0 = startServer env0 True listen0 \<and>
   login lib0 env_no_secret 1000 db0
     (request0\<lparr>body_email := ''a@x.com'', body_password := Some ''secret''\<rparr>) =
     (db0, [FindOne_users ''a@x.com'', ConsoleError ''Error during login:'', Status 500,
            Send ''An error occurred during the login process.''])"
proof -
  let ?u = "\<lparr>u_name = ''A'', u_mobile = ''1'', u_email = ''a@x.com'',
            u_password = ''$2b$10$secret'', u_id = 7\<rparr>"
  let ?rq = "request0\<lparr>body_email := ''a@x.com'', body_password := Some ''secret''\<rparr>"
  have s: "JWT_SECRET env_no_secret = None" by (simp add: env_no_secret_def)
  have a: "available db0" by (simp add: db0_def)
  have f: "find (\<lambda>u. u_email u = body_email ?rq) (users db0) = Some ?u"
    by (simp add: db0_def request0_def)
  have p: "body_password ?rq = Some ''secret''" by simp
  have c: "bcrypt_compare lib0 ''secret'' (u_password ?u)"
    by (simp add: lib0_def)
  have e: "env_no_secret = env0\<lparr>JWT_SECRET := None\<rparr>"
    by (simp add: env_no_secret_def env0_def)
  note t = startup_ignores_secret [where e = env_no_secret and d = db0 and req = ?rq
      and u = ?u and pw = "''secret''" and L = lib0 and now = 1000]
  from t s a f p c have l: "login lib0 env_no_secret 1000 db0 ?rq =
     (db0, [FindOne_users ''a@x.com'', ConsoleError ''Error during login:'', Status 500,
            Send ''An error occurred during the login process.''])"
    by (simp add: request0_def)
  from startup_ignores_secret [where e = env0 and s = None and connected = True
      and listen = listen0, THEN conjunct1]
  have "startServer env_no_secret True listen0 = startServer env0 True listen0"
    by (simp add: e)
  with s a l show ?thesis by simp
qed

subsection \<open>Vehicle display\<close>

text \<open>
  C10, at the input where the source departs from it. \<open>constructor\<close> is not one of the
  nine keys of \<open>vehicleTypeMap\<close>, yet an authenticated request for
  \<open>/vehicles/constructor\<close> is not answered with status 404: the lookup yields the
  function inherited from \<open>Object.prototype\<close>, the guard lets it pass, and the store is
  queried with that function as the filter value.
\<close>

theorem vehicles_constructor_is_not_404:
  "map_of vehicleTypeMap ''constructor'' = None \<and>
   handle lib0 env0 1200 db0 GET_vehicles
     (request0\<lparr>cookies_token := Some token0, params_type := ''constructor''\<rparr>) =
   (db0, [Next, Find_vehicles (JFunction ''Object''), Render ''excavator'' []])"
  by (simp add: handle_def protected_def authenticateToken_def jwt_verify_def verify_def
      falsy_token_def token0_def issue_def lib0_def env0_def request0_def claims_of_def
      identity_of_def expiresIn_1h_def vehicles_type_def js_get_def vehicleTypeMap_def
      Object_prototype_def truthy_def find_vehicles_def db0_def)

end
